theory Spec2Isabelle
  imports Complex_Main
begin

section \<open>Entities of the simulation (game\_state.py)\<close>

text \<open>
  Python integers are unbounded, so positions and health are \<open>int\<close>. The module
  constants \<open>NUM_WEEKS\<close> and \<open>NUM_DAYS\<close> are imported from a module that is not
  part of the sources at hand; every function that reads them takes them in a record.
\<close>

record constants =
  NUM_WEEKS :: nat
  NUM_DAYS :: nat

datatype py_error = KeyError

record Enemy =
  enemy_week :: int
  enemy_day :: int
  health :: int
  max_health :: int

definition Enemy_init :: "int \<Rightarrow> int \<Rightarrow> int \<Rightarrow> Enemy" where
  "Enemy_init w d h = \<lparr>enemy_week = w, enemy_day = d, health = h, max_health = h\<rparr>"

text \<open>\<open>take_damage\<close> mutates the enemy and returns a flag: the model returns both.\<close>

definition take_damage :: "Enemy \<Rightarrow> Enemy \<times> bool" where
  "take_damage e = (let e' = e\<lparr>health := health e - 1\<rparr> in (e', health e' \<le> 0))"

definition is_alive :: "Enemy \<Rightarrow> bool" where
  "is_alive e = (health e > 0)"

text \<open>
  \<open>progress\<close> is a Python float. It only ever holds \<open>0.0\<close> and the quotients
  \<open>(step + 1) / 5\<close>; the model keeps the exact quotient as a rational.
\<close>

record Bullet =
  bullet_week :: int
  target_day :: int
  progress :: rat

record Ship =
  ship_week :: int

definition Ship_init :: Ship where
  "Ship_init = \<lparr>ship_week = - 1\<rparr>"

definition move_to :: "Ship \<Rightarrow> int \<Rightarrow> Ship" where
  "move_to s w = s\<lparr>ship_week := w\<rparr>"

text \<open>
  The contribution data is a dictionary \<open>{"weeks": [{"days": [{"level": n}, ...]}, ...]}\<close>:
  the list of the weeks, each the list of the levels of its days.
\<close>

type_synonym ContributionData = "int list list"

record GameState =
  contribution_data :: ContributionData
  ship :: Ship
  enemies :: "Enemy list"
  bullets :: "Bullet list"

text \<open>The two nested \<open>for ... in enumerate(...)\<close> loops of \<open>_initialize_enemies\<close>.\<close>

definition init_day :: "nat \<Rightarrow> nat \<times> int \<Rightarrow> Enemy list \<Rightarrow> Enemy list" where
  "init_day week_idx = (\<lambda>(day_idx, level) es.
     if level > 0 then es @ [Enemy_init (int week_idx) (int day_idx) level] else es)"

definition init_week :: "nat \<times> int list \<Rightarrow> Enemy list \<Rightarrow> Enemy list" where
  "init_week = (\<lambda>(week_idx, week) es. fold (init_day week_idx) (enumerate 0 week) es)"

definition initialize_enemies :: "GameState \<Rightarrow> GameState" where
  "initialize_enemies gs =
     gs\<lparr>enemies := fold init_week (enumerate 0 (contribution_data gs)) (enemies gs)\<rparr>"

definition GameState_init :: "ContributionData \<Rightarrow> GameState" where
  "GameState_init data =
     initialize_enemies
       \<lparr>contribution_data = data, ship = Ship_init, enemies = [], bullets = []\<rparr>"

text \<open>
  \<open>get_enemy_at\<close> returns a reference to an element of \<open>self.enemies\<close>, which
  \<open>hit_target\<close> then mutates in place. The reference is the element's index in the
  list: the first enemy that stands at the position and is alive.
\<close>

fun enemy_index :: "Enemy list \<Rightarrow> int \<Rightarrow> int \<Rightarrow> nat option" where
  "enemy_index [] w d = None"
| "enemy_index (e # es) w d =
     (if enemy_week e = w \<and> enemy_day e = d \<and> is_alive e then Some 0
      else map_option Suc (enemy_index es w d))"

definition get_enemy_at :: "GameState \<Rightarrow> int \<Rightarrow> int \<Rightarrow> nat option" where
  "get_enemy_at gs w d = enemy_index (enemies gs) w d"

text \<open>
  \<open>shoot\<close> appends the new bullet and returns it; the caller later assigns to its
  \<open>progress\<close>, which is seen through the list. The returned reference is the index of
  the bullet in \<open>self.bullets\<close>.
\<close>

definition GameState_shoot :: "GameState \<Rightarrow> int \<Rightarrow> int \<Rightarrow> GameState \<times> nat" where
  "GameState_shoot gs w d =
     (let bullet = \<lparr>bullet_week = w, target_day = d, progress = 0\<rparr>
      in (gs\<lparr>bullets := bullets gs @ [bullet]\<rparr>, length (bullets gs)))"

definition set_progress :: "GameState \<Rightarrow> nat \<Rightarrow> rat \<Rightarrow> GameState" where
  "set_progress gs b p = gs\<lparr>bullets := (bullets gs)[b := (bullets gs ! b)\<lparr>progress := p\<rparr>]\<rparr>"

definition hit_target :: "GameState \<Rightarrow> int \<Rightarrow> int \<Rightarrow> GameState" where
  "hit_target gs w d =
     (case get_enemy_at gs w d of
        None \<Rightarrow> gs
      | Some i \<Rightarrow> gs\<lparr>enemies := (enemies gs)[i := fst (take_damage (enemies gs ! i))]\<rparr>)"

definition clear_bullets :: "GameState \<Rightarrow> GameState" where
  "clear_bullets gs = gs\<lparr>bullets := []\<rparr>"

definition get_alive_enemies :: "GameState \<Rightarrow> Enemy list" where
  "get_alive_enemies gs = filter is_alive (enemies gs)"

definition is_complete :: "GameState \<Rightarrow> bool" where
  "is_complete gs = (length (get_alive_enemies gs) = 0)"

section \<open>Drawing (game\_state.py, renderer.py)\<close>

text \<open>
  The image library is outside the program. An image is what was asked of it: its size
  and background at creation, then the drawing calls in the order they were made.
  The bullet's vertical position is a float computed from \<open>progress\<close>, a rational here.
\<close>

type_synonym color = "nat \<times> nat \<times> nat"

datatype draw_op =
    Rectangle "int \<times> int \<times> int \<times> int" color
  | Ellipse "int \<times> rat \<times> int \<times> rat" color
  | Polygon "(int \<times> int) list" color

record Image =
  img_size :: "int \<times> int"
  img_background :: color
  img_ops :: "draw_op list"

definition Image_new :: "int \<times> int \<Rightarrow> color \<Rightarrow> Image" where
  "Image_new sz c = \<lparr>img_size = sz, img_background = c, img_ops = []\<rparr>"

definition paint :: "draw_op \<Rightarrow> Image \<Rightarrow> Image" where
  "paint op img = img\<lparr>img_ops := img_ops img @ [op]\<rparr>"

text \<open>The rendering context: the dictionary built by \<open>_create_context\<close>, one field per key.\<close>

record draw_context =
  ctx_get_cell_position :: "int \<Rightarrow> int \<Rightarrow> int \<times> int"
  ctx_cell_size :: int
  ctx_cell_spacing :: int
  ctx_padding :: int
  ctx_grid_color :: color
  ctx_enemy_colors :: "int \<rightharpoonup> color"
  ctx_ship_color :: color
  ctx_bullet_color :: color

text \<open>\<open>d[k]\<close> raises \<open>KeyError\<close> on a missing key; \<open>d.get(k, default)\<close> does not.\<close>

definition dict_item :: "('k \<rightharpoonup> 'v) \<Rightarrow> 'k \<Rightarrow> py_error + 'v" where
  "dict_item m k = (case m k of None \<Rightarrow> Inl KeyError | Some v \<Rightarrow> Inr v)"

definition dict_get :: "('k \<rightharpoonup> 'v) \<Rightarrow> 'k \<Rightarrow> 'v \<Rightarrow> 'v" where
  "dict_get m k dflt = (case m k of None \<Rightarrow> dflt | Some v \<Rightarrow> v)"

text \<open>
  \<open>Enemy.draw\<close>: the default \<open>color_map[1]\<close> is evaluated before \<open>get\<close> is called, so a
  colour map without the key 1 raises whatever the health is.
\<close>

definition Enemy_draw :: "Enemy \<Rightarrow> draw_context \<Rightarrow> Image \<Rightarrow> py_error + Image" where
  "Enemy_draw e ctx img =
     (if \<not> is_alive e then Inr img
      else
        (let (x, y) = ctx_get_cell_position ctx (enemy_week e) (enemy_day e);
             color_map = ctx_enemy_colors ctx;
             cell_size = ctx_cell_size ctx
         in case dict_item color_map 1 of
              Inl err \<Rightarrow> Inl err
            | Inr level1 \<Rightarrow>
                Inr (paint (Rectangle (x, y, x + cell_size, y + cell_size)
                              (dict_get color_map (health e) level1)) img)))"

definition Bullet_draw :: "constants \<Rightarrow> Bullet \<Rightarrow> draw_context \<Rightarrow> Image \<Rightarrow> Image" where
  "Bullet_draw K b ctx img =
     (let cell_size = ctx_cell_size ctx;
          cell_spacing = ctx_cell_spacing ctx;
          padding = ctx_padding ctx;
          x = fst (ctx_get_cell_position ctx (bullet_week b) 0) + cell_size div 2;
          ship_y = padding + int (NUM_DAYS K) * (cell_size + cell_spacing) + 10;
          target_y = snd (ctx_get_cell_position ctx (bullet_week b) (target_day b)) + cell_size div 2;
          y = of_int ship_y + of_int (target_y - ship_y) * progress b;
          radius = 3
      in paint (Ellipse (x - radius, y - of_int radius, x + radius, y + of_int radius)
                  (ctx_bullet_color ctx)) img)"

definition Ship_draw :: "constants \<Rightarrow> Ship \<Rightarrow> draw_context \<Rightarrow> Image \<Rightarrow> Image" where
  "Ship_draw K s ctx img =
     (let cell_size = ctx_cell_size ctx;
          cell_spacing = ctx_cell_spacing ctx;
          padding = ctx_padding ctx;
          x = (if ship_week s \<ge> 0 then fst (ctx_get_cell_position ctx (ship_week s) 0)
               else padding - 20);
          ship_y = padding + int (NUM_DAYS K) * (cell_size + cell_spacing) + 10
      in paint (Polygon [(x + cell_size div 2, ship_y),
                         (x, ship_y + cell_size),
                         (x + cell_size, ship_y + cell_size)]
                  (ctx_ship_color ctx)) img)"

definition draw_cell :: "draw_context \<Rightarrow> nat \<Rightarrow> nat \<Rightarrow> Image \<Rightarrow> Image" where
  "draw_cell ctx week day img =
     (let (x, y) = ctx_get_cell_position ctx (int week) (int day);
          cell_size = ctx_cell_size ctx
      in paint (Rectangle (x, y, x + cell_size, y + cell_size) (ctx_grid_color ctx)) img)"

definition draw_grid :: "constants \<Rightarrow> draw_context \<Rightarrow> Image \<Rightarrow> Image" where
  "draw_grid K ctx img =
     fold (\<lambda>week. fold (draw_cell ctx week) [0..<NUM_DAYS K]) [0..<NUM_WEEKS K] img"

text \<open>A loop whose body may raise stops at the first error.\<close>

fun fold_err :: "('a \<Rightarrow> 's \<Rightarrow> 'e + 's) \<Rightarrow> 'a list \<Rightarrow> 's \<Rightarrow> 'e + 's" where
  "fold_err f [] s = Inr s"
| "fold_err f (x # xs) s = (case f x s of Inl e \<Rightarrow> Inl e | Inr s' \<Rightarrow> fold_err f xs s')"

definition GameState_draw :: "constants \<Rightarrow> GameState \<Rightarrow> draw_context \<Rightarrow> Image \<Rightarrow> py_error + Image" where
  "GameState_draw K gs ctx img =
     (case fold_err (\<lambda>enemy. Enemy_draw enemy ctx) (get_alive_enemies gs) (draw_grid K ctx img) of
        Inl err \<Rightarrow> Inl err
      | Inr img1 \<Rightarrow>
          Inr (Ship_draw K (ship gs) ctx (fold (\<lambda>bullet. Bullet_draw K bullet ctx) (bullets gs) img1)))"

definition CELL_SIZE :: int where "CELL_SIZE = 12"
definition CELL_SPACING :: int where "CELL_SPACING = 2"
definition COLOR_BACKGROUND :: color where "COLOR_BACKGROUND = (13, 17, 23)"
definition COLOR_EMPTY :: color where "COLOR_EMPTY = (22, 27, 34)"
definition COLOR_SHIP :: color where "COLOR_SHIP = (88, 166, 255)"
definition COLOR_BULLET :: color where "COLOR_BULLET = (255, 223, 0)"

definition COLOR_ENEMY :: "int \<rightharpoonup> color" where
  "COLOR_ENEMY = map_of [(1, (0, 109, 50)), (2, (38, 166, 65)), (3, (57, 211, 83)), (4, (87, 242, 135))]"

text \<open>
  The renderer keeps a reference to the game state it was built for; the state it reads
  at each \<open>render_frame\<close> is the current one, passed here as an argument.
\<close>

record Renderer =
  grid_width :: int
  grid_height :: int
  padding :: int
  width :: int
  height :: int

definition Renderer_init :: "constants \<Rightarrow> Renderer" where
  "Renderer_init K =
     (let gw = int (NUM_WEEKS K) * (CELL_SIZE + CELL_SPACING);
          gh = int (NUM_DAYS K) * (CELL_SIZE + CELL_SPACING);
          pad = 40
      in \<lparr>grid_width = gw, grid_height = gh, padding = pad,
          width = gw + 2 * pad, height = gh + 2 * pad\<rparr>)"

definition get_cell_position :: "Renderer \<Rightarrow> int \<Rightarrow> int \<Rightarrow> int \<times> int" where
  "get_cell_position r week day =
     (padding r + week * (CELL_SIZE + CELL_SPACING), padding r + day * (CELL_SIZE + CELL_SPACING))"

definition create_context :: "Renderer \<Rightarrow> draw_context" where
  "create_context r =
     \<lparr>ctx_get_cell_position = get_cell_position r,
      ctx_cell_size = CELL_SIZE,
      ctx_cell_spacing = CELL_SPACING,
      ctx_padding = padding r,
      ctx_grid_color = COLOR_EMPTY,
      ctx_enemy_colors = COLOR_ENEMY,
      ctx_ship_color = COLOR_SHIP,
      ctx_bullet_color = COLOR_BULLET\<rparr>"

definition render_frame :: "constants \<Rightarrow> Renderer \<Rightarrow> GameState \<Rightarrow> py_error + Image" where
  "render_frame K r gs =
     GameState_draw K gs (create_context r) (Image_new (width r, height r) COLOR_BACKGROUND)"

section \<open>The sequencer (animator.py)\<close>

text \<open>
  An action of the strategy, as \<open>_generate_frames\<close> reads it: \<open>action.week\<close>,
  \<open>action.day\<close>, \<open>action.shoot\<close>. The strategy classes are not among the sources;
  the list of the actions the strategy generates is an argument.
\<close>

record Action =
  action_week :: int
  action_day :: int
  shoot :: bool

definition bullet_flight_steps :: nat where
  "bullet_flight_steps = 5"

text \<open>\<open>frames.append(renderer.render_frame())\<close>: the state is read, the frame list grows.\<close>

definition append_frame ::
  "constants \<Rightarrow> Renderer \<Rightarrow> GameState \<times> Image list \<Rightarrow> py_error + GameState \<times> Image list" where
  "append_frame K r = (\<lambda>(gs, frames).
     case render_frame K r gs of
       Inl err \<Rightarrow> Inl err
     | Inr img \<Rightarrow> Inr (gs, frames @ [img]))"

text \<open>The body of \<open>for step in range(bullet_flight_steps)\<close>; \<open>b\<close> is the bullet fired.\<close>

definition flight_step ::
  "constants \<Rightarrow> Renderer \<Rightarrow> nat \<Rightarrow> nat \<Rightarrow> GameState \<times> Image list \<Rightarrow> py_error + GameState \<times> Image list" where
  "flight_step K r b step = (\<lambda>(gs, frames).
     append_frame K r
       (set_progress gs b (of_nat (step + 1) / of_nat bullet_flight_steps), frames))"

text \<open>The body of \<open>for action in ...\<close>.\<close>

definition process_action ::
  "constants \<Rightarrow> Renderer \<Rightarrow> Action \<Rightarrow> GameState \<times> Image list \<Rightarrow> py_error + GameState \<times> Image list" where
  "process_action K r action = (\<lambda>(gs0, frames).
     let gs = gs0\<lparr>ship := move_to (ship gs0) (action_week action)\<rparr>
     in if shoot action then
          (let (gs1, bullet) = GameState_shoot gs (action_week action) (action_day action)
           in case fold_err (flight_step K r bullet) [0..<bullet_flight_steps] (gs1, frames) of
                Inl err \<Rightarrow> Inl err
              | Inr (gs2, frames2) \<Rightarrow>
                  Inr (clear_bullets (hit_target gs2 (action_week action) (action_day action)),
                       frames2))
        else append_frame K r (gs, frames))"

text \<open>
  \<open>_generate_frames\<close> returns the frames; the model also returns the game state it
  leaves behind, which the caller still holds.
\<close>

definition generate_frames ::
  "constants \<Rightarrow> Renderer \<Rightarrow> GameState \<Rightarrow> Action list \<Rightarrow> py_error + GameState \<times> Image list" where
  "generate_frames K r game_state actions =
     (case append_frame K r (game_state, []) of
        Inl err \<Rightarrow> Inl err
      | Inr s0 \<Rightarrow>
          (case fold_err (process_action K r) actions s0 of
             Inl err \<Rightarrow> Inl err
           | Inr s1 \<Rightarrow>
               (case append_frame K r s1 of
                  Inl err \<Rightarrow> Inl err
                | Inr s2 \<Rightarrow> append_frame K r s2)))"

text \<open>
  \<open>Animator.generate_gif\<close> up to the point where the frames go to the encoder: a fresh
  game state and a renderer for it, then the frames.
\<close>

definition animator_frames ::
  "constants \<Rightarrow> ContributionData \<Rightarrow> Action list \<Rightarrow> py_error + GameState \<times> Image list" where
  "animator_frames K data actions =
     generate_frames K (Renderer_init K) (GameState_init data) actions"

section \<open>The web application (main.py)\<close>

datatype strategy_class = ColumnStrategy | RowStrategy | RandomStrategy

definition STRATEGY_MAP :: "(string \<times> strategy_class) list" where
  "STRATEGY_MAP =
     [(''column'', ColumnStrategy), (''row'', RowStrategy), (''random'', RandomStrategy)]"

text \<open>
  What \<open>generate_gif\<close> can raise, as \<open>generate\<close> tells it apart: the client's
  \<open>GitHubAPIError\<close>, or any other exception, each with its message.
\<close>

datatype app_exception = GitHubAPIError string | OtherException string

datatype http_exception = HTTPException nat string

record Response =
  content :: "nat list"
  media_type :: string
  headers :: "(string \<times> string) list"

text \<open>
  The GitHub client and the animator that the application imports are outside the sources
  at hand (the application calls the animator with keywords the animator of animator.py
  does not have), so both are arguments: \<open>fetch token username\<close> is the contribution
  graph or the exception raised, \<open>animate data strategy\<close> the bytes of the GIF or the
  exception raised.
\<close>

definition select_strategy :: "string \<Rightarrow> strategy_class" where
  "select_strategy strategy = dict_get (map_of STRATEGY_MAP) strategy RandomStrategy"

definition generate_gif ::
  "(string \<Rightarrow> string \<Rightarrow> app_exception + ContributionData) \<Rightarrow>
   (ContributionData \<Rightarrow> strategy_class \<Rightarrow> app_exception + nat list) \<Rightarrow>
   string \<Rightarrow> string \<Rightarrow> string \<Rightarrow> app_exception + nat list" where
  "generate_gif fetch animate username strategy token =
     (case fetch token username of
        Inl exn \<Rightarrow> Inl exn
      | Inr data \<Rightarrow> animate data (select_strategy strategy))"

text \<open>
  The handler of \<open>/api/generate\<close>. \<open>os.getenv\<close> gives \<open>None\<close> or a string, and
  \<open>not token\<close> holds for \<open>None\<close> and for the empty string.
\<close>

definition generate ::
  "(string \<Rightarrow> string \<Rightarrow> app_exception + ContributionData) \<Rightarrow>
   (ContributionData \<Rightarrow> strategy_class \<Rightarrow> app_exception + nat list) \<Rightarrow>
   string option \<Rightarrow> string \<Rightarrow> string \<Rightarrow> http_exception + Response" where
  "generate fetch animate getenv_token username strategy =
     (case getenv_token of
        None \<Rightarrow> Inl (HTTPException 500 ''GitHub token not configured'')
      | Some token \<Rightarrow>
          if token = [] then Inl (HTTPException 500 ''GitHub token not configured'')
          else if strategy \<notin> set (map fst STRATEGY_MAP) then
            Inl (HTTPException 400 (''Invalid strategy. Choose from: '' @
                   foldr (\<lambda>k acc. if acc = [] then k else k @ '', '' @ acc)
                     (map fst STRATEGY_MAP) []))
          else
            (case generate_gif fetch animate username strategy token of
               Inr gif \<Rightarrow>
                 Inr \<lparr>content = gif, media_type = ''image/gif'',
                      headers = [(''Response-Type'', ''blob''),
                                 (''Content-Disposition'',
                                  ''inline; filename='' @ username @ ''-space-shooter.gif'')]\<rparr>
             | Inl (GitHubAPIError msg) \<Rightarrow> Inl (HTTPException 400 msg)
             | Inl (OtherException msg) \<Rightarrow>
                 Inl (HTTPException 500 (''Failed to generate GIF: '' @ msg))))"

section \<open>Sequences of operations on the game state\<close>

text \<open>
  The operations a caller has on a game state: moving the ship, shooting, assigning the
  progress of a bullet it holds, resolving a hit, clearing the bullets.
\<close>

datatype game_op =
    OpMove int
  | OpShoot int int
  | OpProgress nat rat
  | OpHit int int
  | OpClear

fun apply_op :: "game_op \<Rightarrow> GameState \<Rightarrow> GameState" where
  "apply_op (OpMove w) gs = gs\<lparr>ship := move_to (ship gs) w\<rparr>"
| "apply_op (OpShoot w d) gs = fst (GameState_shoot gs w d)"
| "apply_op (OpProgress b p) gs = set_progress gs b p"
| "apply_op (OpHit w d) gs = hit_target gs w d"
| "apply_op OpClear gs = clear_bullets gs"

definition apply_ops :: "game_op list \<Rightarrow> GameState \<Rightarrow> GameState" where
  "apply_ops ops gs = fold apply_op ops gs"

section \<open>The drawing order as the specification words it\<close>

text \<open>
  Cell \<open>(week, day)\<close> has its pixel origin at
  \<open>(padding + week * (cellSize + spacing), padding + day * (cellSize + spacing))\<close>,
  with padding 40, cell size 12 and spacing 2; the ship row lies 10 pixels under the grid.
\<close>

definition cell_box :: "int \<Rightarrow> int \<Rightarrow> int \<times> int \<times> int \<times> int" where
  "cell_box week day =
     (40 + week * 14, 40 + day * 14, 40 + week * 14 + 12, 40 + day * 14 + 12)"

definition ship_row :: "constants \<Rightarrow> int" where
  "ship_row K = 40 + int (NUM_DAYS K) * 14 + 10"

text \<open>Step 2: every grid cell, week by week, in the empty-cell colour.\<close>

definition spec_cells :: "constants \<Rightarrow> draw_op list" where
  "spec_cells K =
     concat (map (\<lambda>week. map (\<lambda>day. Rectangle (cell_box (int week) (int day)) COLOR_EMPTY)
                           [0..<NUM_DAYS K]) [0..<NUM_WEEKS K])"

text \<open>
  Step 3: the alive enemies, each in the colour of its current health, the level-1
  colour when the health is above the highest key of the lookup.
\<close>

definition spec_enemy_color :: "int \<Rightarrow> color" where
  "spec_enemy_color h =
     (if h = 2 then (38, 166, 65) else if h = 3 then (57, 211, 83)
      else if h = 4 then (87, 242, 135) else (0, 109, 50))"

definition spec_enemies :: "GameState \<Rightarrow> draw_op list" where
  "spec_enemies gs =
     map (\<lambda>e. Rectangle (cell_box (enemy_week e) (enemy_day e)) (spec_enemy_color (health e)))
       (filter (\<lambda>e. health e > 0) (enemies gs))"

text \<open>
  Step 4: the bullets, each a circle of radius 3 at the centre of its column,
  at \<open>y = shipY + (targetY - shipY) * progress\<close>.
\<close>

definition spec_bullet :: "constants \<Rightarrow> Bullet \<Rightarrow> draw_op" where
  "spec_bullet K b =
     (let x = 40 + bullet_week b * 14 + 6;
          y = of_int (ship_row K)
              + (of_int (40 + target_day b * 14 + 6) - of_int (ship_row K)) * progress b
      in Ellipse (x - 3, y - 3, x + 3, y + 3) COLOR_BULLET)"

text \<open>
  Step 5: the ship, a triangle on the ship row over its column, or 20 pixels left of the
  padding when its week is off the grid.
\<close>

definition spec_ship :: "constants \<Rightarrow> Ship \<Rightarrow> draw_op" where
  "spec_ship K s =
     (let x = (if ship_week s < 0 then 20 else 40 + ship_week s * 14)
      in Polygon [(x + 6, ship_row K), (x, ship_row K + 12), (x + 12, ship_row K + 12)]
           COLOR_SHIP)"

definition spec_render_frame :: "constants \<Rightarrow> GameState \<Rightarrow> Image" where
  "spec_render_frame K gs =
     \<lparr>img_size = (int (NUM_WEEKS K) * 14 + 80, int (NUM_DAYS K) * 14 + 80),
      img_background = COLOR_BACKGROUND,
      img_ops = spec_cells K @ spec_enemies gs @ map (spec_bullet K) (bullets gs)
                @ [spec_ship K (ship gs)]\<rparr>"

text \<open>The number of frames of a run that raised nothing.\<close>

definition frame_count :: "py_error + GameState \<times> Image list \<Rightarrow> nat option" where
  "frame_count res = (case res of Inl err \<Rightarrow> None | Inr (gs, frames) \<Rightarrow> Some (length frames))"

text \<open>The cell an enemy stands on.\<close>

definition enemy_pos :: "Enemy \<Rightarrow> int \<times> int" where
  "enemy_pos e = (enemy_week e, enemy_day e)"

section \<open>Rendering as methods on mutable objects\<close>

text \<open>
  The drawing methods are methods of mutable objects: each could assign to the attributes
  of the object it is called on. Here every method is given its receiver and returns it
  as the method leaves it, next to its result, and a caller that reached the receiver
  through a list or an attribute stores it back where it came from. An element of
  \<open>self.enemies\<close> or \<open>self.bullets\<close> is referred to by its index.
\<close>

definition is_alive_st :: "Enemy \<Rightarrow> Enemy \<times> bool" where
  "is_alive_st e = (e, health e > 0)"

definition Enemy_draw_st :: "Enemy \<Rightarrow> draw_context \<Rightarrow> Image \<Rightarrow> py_error + Enemy \<times> Image" where
  "Enemy_draw_st e0 ctx img =
     (let (e, alive) = is_alive_st e0
      in if \<not> alive then Inr (e, img)
         else
           (let (x, y) = ctx_get_cell_position ctx (enemy_week e) (enemy_day e);
                color_map = ctx_enemy_colors ctx;
                cell_size = ctx_cell_size ctx
            in case dict_item color_map 1 of
                 Inl err \<Rightarrow> Inl err
               | Inr level1 \<Rightarrow>
                   Inr (e, paint (Rectangle (x, y, x + cell_size, y + cell_size)
                                    (dict_get color_map (health e) level1)) img)))"

text \<open>
  \<open>Bullet.draw\<close>, \<open>Ship.draw\<close> and \<open>_draw_grid\<close> assign to no attribute of their
  receiver; what they paint is what \<open>Bullet_draw\<close>, \<open>Ship_draw\<close> and \<open>draw_grid\<close>
  paint.
\<close>

definition Bullet_draw_st :: "constants \<Rightarrow> Bullet \<Rightarrow> draw_context \<Rightarrow> Image \<Rightarrow> Bullet \<times> Image" where
  "Bullet_draw_st K b ctx img = (b, Bullet_draw K b ctx img)"

definition Ship_draw_st :: "constants \<Rightarrow> Ship \<Rightarrow> draw_context \<Rightarrow> Image \<Rightarrow> Ship \<times> Image" where
  "Ship_draw_st K s ctx img = (s, Ship_draw K s ctx img)"

definition draw_grid_st :: "constants \<Rightarrow> GameState \<Rightarrow> draw_context \<Rightarrow> Image \<Rightarrow> GameState \<times> Image" where
  "draw_grid_st K gs ctx img = (gs, draw_grid K ctx img)"

text \<open>
  \<open>[enemy for enemy in self.enemies if enemy.is_alive()]\<close>: the references to the
  enemies that answer that they are alive, each enemy stored back after it was asked.
\<close>

definition alive_at :: "nat \<Rightarrow> GameState \<times> nat list \<Rightarrow> GameState \<times> nat list" where
  "alive_at i = (\<lambda>(gs, acc).
     let (e, alive) = is_alive_st (enemies gs ! i)
     in (gs\<lparr>enemies := (enemies gs)[i := e]\<rparr>, if alive then acc @ [i] else acc))"

definition get_alive_enemies_st :: "GameState \<Rightarrow> GameState \<times> nat list" where
  "get_alive_enemies_st gs = fold alive_at [0..<length (enemies gs)] (gs, [])"

text \<open>The bodies of the two loops of \<open>GameState.draw\<close>.\<close>

definition draw_enemy_at ::
  "draw_context \<Rightarrow> nat \<Rightarrow> GameState \<times> Image \<Rightarrow> py_error + GameState \<times> Image" where
  "draw_enemy_at ctx i = (\<lambda>(gs, img).
     case Enemy_draw_st (enemies gs ! i) ctx img of
       Inl err \<Rightarrow> Inl err
     | Inr (e, img') \<Rightarrow> Inr (gs\<lparr>enemies := (enemies gs)[i := e]\<rparr>, img'))"

definition draw_bullet_at ::
  "constants \<Rightarrow> draw_context \<Rightarrow> nat \<Rightarrow> GameState \<times> Image \<Rightarrow> GameState \<times> Image" where
  "draw_bullet_at K ctx i = (\<lambda>(gs, img).
     let (b, img') = Bullet_draw_st K (bullets gs ! i) ctx img
     in (gs\<lparr>bullets := (bullets gs)[i := b]\<rparr>, img'))"

definition GameState_draw_st ::
  "constants \<Rightarrow> GameState \<Rightarrow> draw_context \<Rightarrow> Image \<Rightarrow> py_error + GameState \<times> Image" where
  "GameState_draw_st K gs ctx img =
     (let (gs1, img1) = draw_grid_st K gs ctx img;
          (gs2, alive) = get_alive_enemies_st gs1
      in case fold_err (draw_enemy_at ctx) alive (gs2, img1) of
           Inl err \<Rightarrow> Inl err
         | Inr (gs3, img3) \<Rightarrow>
             (let (gs4, img4) =
                    fold (draw_bullet_at K ctx) [0..<length (bullets gs3)] (gs3, img3);
                  (s, img5) = Ship_draw_st K (ship gs4) ctx img4
              in Inr (gs4\<lparr>ship := s\<rparr>, img5)))"

text \<open>
  \<open>Renderer.render_frame\<close>: the renderer is the receiver, the game state is the object
  its attribute \<open>game_state\<close> refers to; both are returned as the call leaves them.
\<close>

definition create_context_st :: "Renderer \<Rightarrow> Renderer \<times> draw_context" where
  "create_context_st r = (r, create_context r)"

definition render_frame_st ::
  "constants \<Rightarrow> Renderer \<Rightarrow> GameState \<Rightarrow> py_error + Renderer \<times> GameState \<times> Image" where
  "render_frame_st K r gs =
     (let img = Image_new (width r, height r) COLOR_BACKGROUND;
          (r1, ctx) = create_context_st r
      in case GameState_draw_st K gs ctx img of
           Inl err \<Rightarrow> Inl err
         | Inr (gs', img') \<Rightarrow> Inr (r1, gs', img'))"

text \<open>
  Two calls of \<open>render_frame\<close> with nothing in between: the second call meets the
  renderer and the game state that the first one left.
\<close>

definition render_twice ::
  "constants \<Rightarrow> Renderer \<Rightarrow> GameState \<Rightarrow> py_error + Renderer \<times> GameState \<times> Image \<times> Image" where
  "render_twice K r gs =
     (case render_frame_st K r gs of
        Inl err \<Rightarrow> Inl err
      | Inr (r1, gs1, img1) \<Rightarrow>
          (case render_frame_st K r1 gs1 of
             Inl err \<Rightarrow> Inl err
           | Inr (r2, gs2, img2) \<Rightarrow> Inr (r2, gs2, img1, img2)))"

section \<open>Rendering with the renderer's own context\<close>


lemma fold_paint:
  "fold (\<lambda>x. paint (f x)) xs img = img\<lparr>img_ops := img_ops img @ map f xs\<rparr>"
  by (induction xs arbitrary: img) (simp_all add: paint_def)

lemma draw_cell_context:
  "draw_cell (create_context (Renderer_init K)) week =
     (\<lambda>day. paint (Rectangle (cell_box (int week) (int day)) COLOR_EMPTY))"
  by (simp add: draw_cell_def create_context_def Renderer_init_def get_cell_position_def
      cell_box_def CELL_SIZE_def CELL_SPACING_def Let_def fun_eq_iff)

lemma fold_fold_paint:
  "fold (\<lambda>x. fold (\<lambda>y. paint (f x y)) ys) xs img =
     img\<lparr>img_ops := img_ops img @ concat (map (\<lambda>x. map (f x) ys) xs)\<rparr>"
  by (induction xs arbitrary: img) (simp_all add: fold_paint)

lemma draw_grid_context:
  "draw_grid K (create_context (Renderer_init K)) img =
     img\<lparr>img_ops := img_ops img @ spec_cells K\<rparr>"
  by (simp add: draw_grid_def draw_cell_context fold_fold_paint spec_cells_def)

lemma COLOR_ENEMY_get:
  "dict_get COLOR_ENEMY h (0, 109, 50) = spec_enemy_color h"
  by (simp add: dict_get_def COLOR_ENEMY_def spec_enemy_color_def)

lemma COLOR_ENEMY_1: "dict_item COLOR_ENEMY 1 = Inr (0, 109, 50)"
  by (simp add: dict_item_def COLOR_ENEMY_def)

lemma Enemy_draw_context:
  "is_alive e \<Longrightarrow>
   Enemy_draw e (create_context (Renderer_init K)) img =
     Inr (paint (Rectangle (cell_box (enemy_week e) (enemy_day e)) (spec_enemy_color (health e))) img)"
  by (simp add: Enemy_draw_def create_context_def Renderer_init_def get_cell_position_def
      cell_box_def CELL_SIZE_def CELL_SPACING_def Let_def COLOR_ENEMY_1 COLOR_ENEMY_get)

lemma fold_err_Enemy_draw:
  "fold_err (\<lambda>enemy. Enemy_draw enemy (create_context (Renderer_init K)))
     (filter (\<lambda>e. health e > 0) es) img =
     Inr (img\<lparr>img_ops := img_ops img @
            map (\<lambda>e. Rectangle (cell_box (enemy_week e) (enemy_day e)) (spec_enemy_color (health e)))
              (filter (\<lambda>e. health e > 0) es)\<rparr>)"
  by (induction es arbitrary: img) (simp_all add: Enemy_draw_context is_alive_def paint_def)

lemma Bullet_draw_context:
  "Bullet_draw K b (create_context (Renderer_init K)) = paint (spec_bullet K b)"
  by (simp add: Bullet_draw_def create_context_def Renderer_init_def get_cell_position_def
      spec_bullet_def ship_row_def CELL_SIZE_def CELL_SPACING_def COLOR_BULLET_def Let_def fun_eq_iff
      algebra_simps)

lemma Ship_draw_context:
  "Ship_draw K s (create_context (Renderer_init K)) = paint (spec_ship K s)"
  by (simp add: Ship_draw_def create_context_def Renderer_init_def get_cell_position_def
      spec_ship_def ship_row_def CELL_SIZE_def CELL_SPACING_def Let_def fun_eq_iff)

lemma Renderer_init_size:
  "width (Renderer_init K) = int (NUM_WEEKS K) * 14 + 80"
  "height (Renderer_init K) = int (NUM_DAYS K) * 14 + 80"
  by (simp_all add: Renderer_init_def Let_def CELL_SIZE_def CELL_SPACING_def)

lemma render_frame_spec:
  "render_frame K (Renderer_init K) gs = Inr (spec_render_frame K gs)"
proof -
  let ?ctx = "create_context (Renderer_init K)"
  let ?img0 = "Image_new (width (Renderer_init K), height (Renderer_init K)) COLOR_BACKGROUND"
  have "get_alive_enemies gs = filter (\<lambda>e. health e > 0) (enemies gs)"
    by (simp add: get_alive_enemies_def is_alive_def[abs_def])
  then have "fold_err (\<lambda>enemy. Enemy_draw enemy ?ctx) (get_alive_enemies gs) (draw_grid K ?ctx ?img0)
        = Inr (?img0\<lparr>img_ops := spec_cells K @ spec_enemies gs\<rparr>)"
    by (simp add: fold_err_Enemy_draw draw_grid_context Image_new_def spec_enemies_def)
  then show ?thesis
    by (simp add: render_frame_def GameState_draw_def Bullet_draw_context Ship_draw_context
        fold_paint paint_def spec_render_frame_def Image_new_def Renderer_init_size)
qed

lemma append_frame_spec:
  "append_frame K (Renderer_init K) (gs, fs) = Inr (gs, fs @ [spec_render_frame K gs])"
  by (simp add: append_frame_def render_frame_spec)

lemma set_progress_twice:
  "set_progress (set_progress gs b p) b q = set_progress gs b q"
  by (cases "b < length (bullets gs)") (simp_all add: set_progress_def not_less list_update_beyond)

lemma flight_step_spec:
  "flight_step K (Renderer_init K) b step (gs, fs) =
     (let g = set_progress gs b (of_nat (step + 1) / of_nat bullet_flight_steps)
      in Inr (g, fs @ [spec_render_frame K g]))"
  by (simp add: flight_step_def append_frame_spec Let_def)

lemma fold_err_flight_step:
  "fold_err (flight_step K (Renderer_init K) b) steps (gs, fs) =
     Inr (fold (\<lambda>step g. set_progress g b (of_nat (step + 1) / of_nat bullet_flight_steps)) steps gs,
          fs @ map (\<lambda>step. spec_render_frame K
                     (set_progress gs b (of_nat (step + 1) / of_nat bullet_flight_steps))) steps)"
proof (induction steps arbitrary: gs fs)
  case Nil
  show ?case by simp
next
  case (Cons s steps)
  show ?case
    by (simp add: flight_step_spec Cons.IH set_progress_twice Let_def)
qed

lemma set_progress_shoot:
  "set_progress (gs\<lparr>bullets := bs @ [\<lparr>bullet_week = w, target_day = d, progress = p\<rparr>]\<rparr>) (length bs) q
     = gs\<lparr>bullets := bs @ [\<lparr>bullet_week = w, target_day = d, progress = q\<rparr>]\<rparr>"
  by (simp add: set_progress_def)

lemma fold_set_progress:
  "fold (\<lambda>step g. set_progress g b (f step)) steps gs =
     (if steps = [] then gs else set_progress gs b (f (last steps)))"
  by (induction steps arbitrary: gs) (simp_all add: set_progress_twice)

lemma hit_target_bullets:
  "hit_target (gs\<lparr>bullets := bs\<rparr>) w d = (hit_target gs w d)\<lparr>bullets := bs\<rparr>"
  by (simp add: hit_target_def get_enemy_at_def split: option.splits)

lemma bullets_hit_target: "bullets (hit_target gs w d) = bullets gs"
  by (simp add: hit_target_def split: option.splits)

lemma flight_steps_upt: "[0..<bullet_flight_steps] = [0, 1, 2, 3, 4]"
  by (simp add: bullet_flight_steps_def upt_rec)

lemma process_action_shoot:
  assumes "shoot a"
  shows "process_action K (Renderer_init K) a (gs, fs) =
     (let m = gs\<lparr>ship := move_to (ship gs) (action_week a)\<rparr>
      in Inr ((hit_target m (action_week a) (action_day a))\<lparr>bullets := []\<rparr>,
              fs @ map (\<lambda>step. spec_render_frame K
                   (m\<lparr>bullets := bullets gs @
                       [\<lparr>bullet_week = action_week a, target_day = action_day a,
                         progress = of_nat (step + 1) / of_nat bullet_flight_steps\<rparr>]\<rparr>))
                 [0..<bullet_flight_steps]))"
proof -
  have ne: "[0..<bullet_flight_steps] \<noteq> []" "last [0..<bullet_flight_steps] = 4"
    by (simp_all add: flight_steps_upt)
  show ?thesis using assms
    by (simp add: process_action_def GameState_shoot_def Let_def fold_err_flight_step
        fold_set_progress ne set_progress_shoot hit_target_bullets clear_bullets_def)
qed

lemma process_action_move:
  assumes "\<not> shoot a"
  shows "process_action K (Renderer_init K) a (gs, fs) =
     (let m = gs\<lparr>ship := move_to (ship gs) (action_week a)\<rparr>
      in Inr (m, fs @ [spec_render_frame K m]))"
  using assms by (simp add: process_action_def Let_def append_frame_spec)

lemma fold_err_process_action:
  "\<exists>gs' fs'. fold_err (process_action K (Renderer_init K)) actions (gs, fs) = Inr (gs', fs')
     \<and> length fs' = length fs + length (filter (\<lambda>a. \<not> shoot a) actions)
          + length (filter shoot actions) * bullet_flight_steps
     \<and> (bullets gs = [] \<longrightarrow> bullets gs' = [])"
proof (induction actions arbitrary: gs fs)
  case Nil
  show ?case by simp
next
  case (Cons a actions)
  show ?case
  proof (cases "shoot a")
    case True
    let ?m = "gs\<lparr>ship := move_to (ship gs) (action_week a)\<rparr>"
    let ?g = "(hit_target ?m (action_week a) (action_day a))\<lparr>bullets := []\<rparr>"
    obtain fs1 where step: "process_action K (Renderer_init K) a (gs, fs) = Inr (?g, fs1)"
      and len: "length fs1 = length fs + bullet_flight_steps"
      using process_action_shoot[OF True, of K gs fs] by (simp add: Let_def)
    from Cons.IH[of ?g fs1] step len True show ?thesis by auto
  next
    case False
    let ?m = "gs\<lparr>ship := move_to (ship gs) (action_week a)\<rparr>"
    obtain fs1 where step: "process_action K (Renderer_init K) a (gs, fs) = Inr (?m, fs1)"
      and len: "length fs1 = length fs + 1"
      using process_action_move[OF False, of K gs fs] by (simp add: Let_def)
    from Cons.IH[of ?m fs1] step len False show ?thesis by auto
  qed
qed

lemma generate_frames_length:
  "\<exists>gs' frames. generate_frames K (Renderer_init K) gs actions = Inr (gs', frames)
     \<and> length frames = 1 + length (filter (\<lambda>a. \<not> shoot a) actions)
          + length (filter shoot actions) * bullet_flight_steps + 2"
proof -
  obtain gs1 fs1 where
    run: "fold_err (process_action K (Renderer_init K)) actions (gs, [spec_render_frame K gs]) = Inr (gs1, fs1)"
    and len: "length fs1 = 1 + length (filter (\<lambda>a. \<not> shoot a) actions)
          + length (filter shoot actions) * bullet_flight_steps"
    using fold_err_process_action[of K actions gs "[spec_render_frame K gs]"] by auto
  show ?thesis
    by (simp add: generate_frames_def append_frame_spec run len)
qed

section \<open>The frame-count law\<close>

text \<open>
  C1. With the renderer the animator builds, \<open>_generate_frames\<close> raises nothing and
  returns one initial frame, one frame for each action that is a move, five flight frames
  for each action that shoots, and two completion frames, whatever the game state and the
  actions; with no action at all it returns three frames.
\<close>

theorem frame_count_law:
  "frame_count (generate_frames K (Renderer_init K) game_state actions) =
     Some (1 + length (filter (\<lambda>a. \<not> shoot a) actions) + length (filter shoot actions) * 5 + 2)
   \<and> frame_count (generate_frames K (Renderer_init K) game_state []) = Some 3"
proof -
  have "frame_count (generate_frames K (Renderer_init K) game_state acts) =
     Some (1 + length (filter (\<lambda>a. \<not> shoot a) acts) + length (filter shoot acts) * 5 + 2)" for acts
    using generate_frames_length[of K game_state acts]
    by (auto simp add: frame_count_def bullet_flight_steps_def)
  from this[of actions] this[of "[]"] show ?thesis by simp
qed

section \<open>No ceiling on the number of frames\<close>

lemma column_sweep_shots:
  "filter shoot (concat (map (\<lambda>w. map (\<lambda>d. \<lparr>action_week = int w, action_day = int d, shoot = True\<rparr>) ds) ws))
    = concat (map (\<lambda>w. map (\<lambda>d. \<lparr>action_week = int w, action_day = int d, shoot = True\<rparr>) ds) ws)"
  by (induction ws) simp_all

text \<open>
  C2, as stated, fails. The application asks for at most 250 frames
  (\<open>generate_gif(maxFrame=250)\<close>), yet \<open>_generate_frames\<close> has no cap to reach: on a
  grid of 8 full weeks, swept with one shot per cell week by week, it returns
  \<open>1 + 56 * 5 + 2 = 283\<close> frames, more than 250 plus the two completion frames.
\<close>

theorem frame_ceiling_counterexample:
  "frame_count (animator_frames \<lparr>NUM_WEEKS = 52, NUM_DAYS = 7\<rparr> (replicate 8 (replicate 7 1))
     (concat (map (\<lambda>w. map (\<lambda>d. \<lparr>action_week = int w, action_day = int d, shoot = True\<rparr>) [0..<7]) [0..<8])))
   = Some 283"
proof -
  let ?acts = "concat (map (\<lambda>w. map (\<lambda>d. \<lparr>action_week = int w, action_day = int d, shoot = True\<rparr>) [0..<7]) [0..<8])"
  have s: "filter shoot ?acts = ?acts" by (rule column_sweep_shots)
  have n: "filter (\<lambda>a. \<not> shoot a) ?acts = []"
    by (simp add: filter_empty_conv)
  have l: "length ?acts = 56"
    by (simp add: length_concat comp_def upt_rec)
  show ?thesis
    using generate_frames_length[of "\<lparr>NUM_WEEKS = 52, NUM_DAYS = 7\<rparr>" "GameState_init (replicate 8 (replicate 7 1))" ?acts]
    unfolding s n l animator_frames_def
    by (auto simp add: frame_count_def bullet_flight_steps_def)
qed

text \<open>
  C2, amended. \<open>_generate_frames\<close> enforces no ceiling: it emits every frame of every
  action and then the completion frames, so the count grows with the action sequence
  without bound; a run of \<open>cap\<close> moves alone yields \<open>cap + 3\<close> frames.
\<close>

theorem no_frame_ceiling:
  "frame_count (generate_frames K (Renderer_init K) game_state actions) =
     Some (length (filter (\<lambda>a. \<not> shoot a) actions) + 5 * length (filter shoot actions) + 3)
   \<and> frame_count (generate_frames K (Renderer_init K) game_state
         (replicate cap \<lparr>action_week = w, action_day = d, shoot = False\<rparr>)) = Some (cap + 3)"
proof -
  have "frame_count (generate_frames K (Renderer_init K) game_state acts) =
     Some (length (filter (\<lambda>a. \<not> shoot a) acts) + 5 * length (filter shoot acts) + 3)" for acts
    using generate_frames_length[of K game_state acts]
    by (auto simp add: frame_count_def bullet_flight_steps_def)
  from this[of actions] this[of "replicate cap \<lparr>action_week = w, action_day = d, shoot = False\<rparr>"]
  show ?thesis by simp
qed

section \<open>Damage\<close>

text \<open>
  C10. \<open>take_damage\<close> subtracts one from the health whatever it is, with no lower
  clamp, and returns whether the new health is at most 0. Called on an enemy of health 0
  it leaves health -1, while \<open>hit_target\<close> at the position of such an enemy changes
  nothing.
\<close>

theorem take_damage_unclamped:
  "take_damage e = (e\<lparr>health := health e - 1\<rparr>, health e - 1 \<le> 0)
   \<and> take_damage (e\<lparr>health := 0\<rparr>) = (e\<lparr>health := - 1\<rparr>, True)
   \<and> hit_target (gs\<lparr>enemies := [e\<lparr>health := 0\<rparr>]\<rparr>) (enemy_week e) (enemy_day e)
       = gs\<lparr>enemies := [e\<lparr>health := 0\<rparr>]\<rparr>"
  by (simp add: take_damage_def Let_def hit_target_def get_enemy_at_def is_alive_def)

section \<open>Hits on the game state\<close>

lemma enemy_index_None:
  "enemy_index es w d = None \<longleftrightarrow>
     \<not> (\<exists>e \<in> set es. enemy_week e = w \<and> enemy_day e = d \<and> is_alive e)"
  by (induction es) auto

lemma enemy_index_Some:
  "enemy_index es w d = Some i \<Longrightarrow>
     i < length es \<and> enemy_week (es ! i) = w \<and> enemy_day (es ! i) = d \<and> is_alive (es ! i)"
  by (induction es arbitrary: i) (auto split: if_splits)

lemma enemy_index_distinct:
  "distinct (map enemy_pos es) \<Longrightarrow> i < length es \<Longrightarrow>
   enemy_index es (enemy_week (es ! i)) (enemy_day (es ! i)) =
     (if is_alive (es ! i) then Some i else None)"
proof (induction es arbitrary: i)
  case Nil
  then show ?case by simp
next
  case (Cons e es)
  show ?case
  proof (cases i)
    case 0
    have "\<not> (\<exists>x \<in> set es. enemy_week x = enemy_week e \<and> enemy_day x = enemy_day e \<and> is_alive x)"
      using Cons.prems(1) by (auto simp add: enemy_pos_def image_iff)
    then have "enemy_index es (enemy_week e) (enemy_day e) = None"
      unfolding enemy_index_None .
    with 0 show ?thesis by simp
  next
    case (Suc j)
    with Cons.prems have j: "j < length es" and d: "distinct (map enemy_pos es)"
      and ne: "enemy_pos e \<noteq> enemy_pos (es ! j)"
      by auto
    from ne have "\<not> (enemy_week e = enemy_week (es ! j) \<and> enemy_day e = enemy_day (es ! j))"
      by (simp add: enemy_pos_def)
    with Suc Cons.IH[OF d j] show ?thesis by auto
  qed
qed

text \<open>
  C5. When no alive enemy stands at \<open>(week, day)\<close>, be the cell empty, its enemy
  destroyed or the coordinate outside the grid, \<open>hit_target\<close> returns the game state
  as it was: enemies, bullets, ship and grid. The function has no branch that raises.
\<close>

theorem hit_target_noop:
  assumes "\<not> (\<exists>e \<in> set (enemies gs). enemy_week e = week \<and> enemy_day e = day \<and> is_alive e)"
  shows "hit_target gs week day = gs"
proof -
  from assms have "enemy_index (enemies gs) week day = None"
    unfolding enemy_index_None .
  then show ?thesis
    by (simp add: hit_target_def get_enemy_at_def)
qed

lemma GameState_init_example:
  "GameState_init [[1, 0], [0, 2]] =
     \<lparr>contribution_data = [[1, 0], [0, 2]], ship = \<lparr>ship_week = - 1\<rparr>,
      enemies = [\<lparr>enemy_week = 0, enemy_day = 0, health = 1, max_health = 1\<rparr>,
                 \<lparr>enemy_week = 1, enemy_day = 1, health = 2, max_health = 2\<rparr>],
      bullets = []\<rparr>"
  by (simp add: GameState_init_def initialize_enemies_def init_week_def init_day_def
      Enemy_init_def Ship_init_def)

text \<open>The cell \<open>(0, 1)\<close> of a two-week grid is empty: the hit changes nothing.\<close>

theorem hit_target_noop_witness:
  "\<not> (\<exists>e \<in> set (enemies (GameState_init [[1, 0], [0, 2]])).
        enemy_week e = 0 \<and> enemy_day e = 1 \<and> is_alive e)
   \<and> hit_target (GameState_init [[1, 0], [0, 2]]) 0 1 = GameState_init [[1, 0], [0, 2]]"
proof -
  have h: "\<not> (\<exists>e \<in> set (enemies (GameState_init [[1, 0], [0, 2]])).
        enemy_week e = 0 \<and> enemy_day e = 1 \<and> is_alive e)"
    by (simp add: GameState_init_example)
  from h hit_target_noop[OF h] show ?thesis by simp
qed

lemma init_day_inv:
  assumes "distinct (map enemy_pos es)"
    and "\<forall>e \<in> set es. 0 < health e \<and>
           (enemy_week e < int w \<or> (enemy_week e = int w \<and> enemy_day e < int n))"
  shows "distinct (map enemy_pos (fold (init_day w) (enumerate n week) es)) \<and>
         (\<forall>e \<in> set (fold (init_day w) (enumerate n week) es). 0 < health e \<and>
           (enemy_week e < int w \<or> (enemy_week e = int w \<and> enemy_day e < int (n + length week))))"
  using assms
proof (induction week arbitrary: n es)
  case Nil
  then show ?case by simp
next
  case (Cons level week)
  let ?es = "init_day w (n, level) es"
  have fresh: "enemy_pos (Enemy_init (int w) (int n) level) \<notin> enemy_pos ` set es"
    using Cons.prems(2) by (auto simp add: Enemy_init_def enemy_pos_def)
  have d: "distinct (map enemy_pos ?es)"
    using Cons.prems(1) fresh by (simp add: init_day_def)
  have b: "\<forall>e \<in> set ?es. 0 < health e \<and>
           (enemy_week e < int w \<or> (enemy_week e = int w \<and> enemy_day e < int (Suc n)))"
    using Cons.prems(2) by (auto simp add: init_day_def Enemy_init_def)
  from Cons.IH[OF d b] show ?case by simp
qed

lemma init_week_inv:
  assumes "distinct (map enemy_pos es)"
    and "\<forall>e \<in> set es. 0 < health e \<and> enemy_week e < int n"
  shows "distinct (map enemy_pos (fold init_week (enumerate n weeks) es)) \<and>
         (\<forall>e \<in> set (fold init_week (enumerate n weeks) es).
            0 < health e \<and> enemy_week e < int (n + length weeks))"
  using assms
proof (induction weeks arbitrary: n es)
  case Nil
  then show ?case by simp
next
  case (Cons week weeks)
  let ?es = "fold (init_day n) (enumerate 0 week) es"
  have pre: "\<forall>e \<in> set es. 0 < health e \<and>
           (enemy_week e < int n \<or> (enemy_week e = int n \<and> enemy_day e < int 0))"
    using Cons.prems(2) by simp
  from init_day_inv[OF Cons.prems(1) pre, of week]
  have d: "distinct (map enemy_pos ?es)"
    and b: "\<forall>e \<in> set ?es. 0 < health e \<and> enemy_week e < int (Suc n)"
    by auto
  from Cons.IH[OF d b] show ?case by (simp add: init_week_def)
qed

lemma GameState_init_inv:
  "distinct (map enemy_pos (enemies (GameState_init data))) \<and>
   (\<forall>e \<in> set (enemies (GameState_init data)). 0 < health e)"
  using init_week_inv[of "[]" 0 data]
  by (simp add: GameState_init_def initialize_enemies_def)

lemma hit_target_inv:
  assumes "distinct (map enemy_pos (enemies gs))"
    and "\<forall>e \<in> set (enemies gs). 0 \<le> health e"
  shows "distinct (map enemy_pos (enemies (hit_target gs w d))) \<and>
         (\<forall>e \<in> set (enemies (hit_target gs w d)). 0 \<le> health e)"
proof (cases "enemy_index (enemies gs) w d")
  case None
  with assms show ?thesis by (simp add: hit_target_def get_enemy_at_def)
next
  case (Some i)
  let ?es = "enemies gs"
  let ?e' = "(?es ! i)\<lparr>health := health (?es ! i) - 1\<rparr>"
  from enemy_index_Some[OF Some] have i: "i < length ?es" and alive: "is_alive (?es ! i)"
    by simp_all
  have es': "enemies (hit_target gs w d) = ?es[i := ?e']"
    using Some by (simp add: hit_target_def get_enemy_at_def take_damage_def Let_def)
  have "map enemy_pos (?es[i := ?e']) = (map enemy_pos ?es)[i := enemy_pos (?es ! i)]"
    by (simp add: map_update enemy_pos_def)
  also have "\<dots> = map enemy_pos ?es"
    using i by (simp add: list_update_same_conv)
  finally have pos: "map enemy_pos (?es[i := ?e']) = map enemy_pos ?es" .
  have "0 \<le> health ?e'"
    using alive by (simp add: is_alive_def)
  then have "\<forall>e \<in> set (?es[i := ?e']). 0 \<le> health e"
    using assms(2) set_update_subset_insert[of ?es i ?e'] by auto
  with pos assms(1) es' show ?thesis by simp
qed

lemma apply_op_inv:
  assumes "distinct (map enemy_pos (enemies gs))"
    and "\<forall>e \<in> set (enemies gs). 0 \<le> health e"
  shows "distinct (map enemy_pos (enemies (apply_op op gs))) \<and>
         (\<forall>e \<in> set (enemies (apply_op op gs)). 0 \<le> health e)"
proof (cases op)
  case (OpHit w d)
  with hit_target_inv[OF assms] show ?thesis by simp
qed (use assms in \<open>simp_all add: GameState_shoot_def set_progress_def clear_bullets_def Let_def\<close>)

lemma apply_ops_inv:
  assumes "distinct (map enemy_pos (enemies gs))"
    and "\<forall>e \<in> set (enemies gs). 0 \<le> health e"
  shows "distinct (map enemy_pos (enemies (apply_ops ops gs))) \<and>
         (\<forall>e \<in> set (enemies (apply_ops ops gs)). 0 \<le> health e)"
  using assms unfolding apply_ops_def
proof (induction ops arbitrary: gs)
  case Nil
  then show ?case by simp
next
  case (Cons op ops)
  from apply_op_inv[OF Cons.prems, of op] Cons.IH[of "apply_op op gs"]
  show ?case by simp
qed

lemma reachable_inv:
  "distinct (map enemy_pos (enemies (apply_ops ops (GameState_init data)))) \<and>
   (\<forall>e \<in> set (enemies (apply_ops ops (GameState_init data))). 0 \<le> health e)"
proof -
  from GameState_init_inv[of data]
  have "distinct (map enemy_pos (enemies (GameState_init data)))"
    and "\<forall>e \<in> set (enemies (GameState_init data)). 0 \<le> health e"
    by (auto intro: less_imp_le)
  then show ?thesis by (rule apply_ops_inv)
qed

text \<open>
  C4. In every game state reached from a fresh one by moves of the ship, shots, progress
  assignments, hits and clearings, every enemy has health at least 0. A hit at the
  position of an alive enemy lowers the health of that enemy by exactly one and changes
  nothing else, and the enemy is then no longer alive exactly when its health is 0; a
  hit at the position of an enemy that is not alive changes nothing.
\<close>

theorem damage_monotone:
  assumes "gs = apply_ops ops (GameState_init data)"
    and "i < length (enemies gs)"
    and "e = enemies gs ! i"
  shows "0 \<le> health e
    \<and> (is_alive e \<longrightarrow>
         hit_target gs (enemy_week e) (enemy_day e)
           = gs\<lparr>enemies := (enemies gs)[i := e\<lparr>health := health e - 1\<rparr>]\<rparr>
         \<and> (\<not> is_alive (e\<lparr>health := health e - 1\<rparr>) \<longleftrightarrow> health e - 1 = 0))
    \<and> (\<not> is_alive e \<longrightarrow> hit_target gs (enemy_week e) (enemy_day e) = gs)"
proof -
  from reachable_inv[of ops data] assms(1)
  have d: "distinct (map enemy_pos (enemies gs))" and h: "\<forall>x \<in> set (enemies gs). 0 \<le> health x"
    by simp_all
  from h assms(2,3) have nonneg: "0 \<le> health e" by simp
  have idx: "enemy_index (enemies gs) (enemy_week e) (enemy_day e) =
      (if is_alive e then Some i else None)"
    using enemy_index_distinct[OF d assms(2)] assms(3) by simp
  have alive: "hit_target gs (enemy_week e) (enemy_day e)
           = gs\<lparr>enemies := (enemies gs)[i := e\<lparr>health := health e - 1\<rparr>]\<rparr>" if "is_alive e"
    using that idx assms(3) by (simp add: hit_target_def get_enemy_at_def take_damage_def Let_def)
  have dead: "hit_target gs (enemy_week e) (enemy_day e) = gs" if "\<not> is_alive e"
    using that idx by (simp add: hit_target_def get_enemy_at_def)
  have turn: "\<not> is_alive (e\<lparr>health := health e - 1\<rparr>) \<longleftrightarrow> health e - 1 = 0" if "is_alive e"
    using that by (auto simp add: is_alive_def)
  from nonneg alive dead turn show ?thesis by blast
qed

lemma reachable_example:
  "apply_ops [OpMove 0, OpShoot 0 0, OpProgress 0 1, OpHit 0 0, OpClear, OpHit 0 0, OpHit 0 0]
     (GameState_init [[2]]) =
   \<lparr>contribution_data = [[2]], ship = \<lparr>ship_week = 0\<rparr>,
    enemies = [\<lparr>enemy_week = 0, enemy_day = 0, health = 0, max_health = 2\<rparr>],
    bullets = []\<rparr>"
  by (simp add: apply_ops_def GameState_init_def initialize_enemies_def init_week_def init_day_def
      Enemy_init_def Ship_init_def move_to_def GameState_shoot_def set_progress_def hit_target_def
      get_enemy_at_def is_alive_def take_damage_def clear_bullets_def Let_def)

lemma reachable_example_alive:
  "apply_ops [OpHit 0 0] (GameState_init [[2]]) =
   \<lparr>contribution_data = [[2]], ship = \<lparr>ship_week = - 1\<rparr>,
    enemies = [\<lparr>enemy_week = 0, enemy_day = 0, health = 1, max_health = 2\<rparr>],
    bullets = []\<rparr>"
  by (simp add: apply_ops_def GameState_init_def initialize_enemies_def init_week_def init_day_def
      Enemy_init_def Ship_init_def hit_target_def
      get_enemy_at_def is_alive_def take_damage_def Let_def)

text \<open>
  An enemy of health 2 hit three times ends with health 0 and the third hit changes
  nothing; hit once it is alive with health 1, and the next hit brings it to 0.
\<close>

theorem damage_monotone_witness:
  "health (enemies (apply_ops [OpMove 0, OpShoot 0 0, OpProgress 0 1, OpHit 0 0, OpClear, OpHit 0 0, OpHit 0 0]
       (GameState_init [[2]])) ! 0) = 0
   \<and> hit_target (apply_ops [OpMove 0, OpShoot 0 0, OpProgress 0 1, OpHit 0 0, OpClear, OpHit 0 0, OpHit 0 0]
       (GameState_init [[2]])) 0 0
     = apply_ops [OpMove 0, OpShoot 0 0, OpProgress 0 1, OpHit 0 0, OpClear, OpHit 0 0, OpHit 0 0]
       (GameState_init [[2]])
   \<and> is_alive (enemies (apply_ops [OpHit 0 0] (GameState_init [[2]])) ! 0)
   \<and> enemies (hit_target (apply_ops [OpHit 0 0] (GameState_init [[2]])) 0 0)
     = [\<lparr>enemy_week = 0, enemy_day = 0, health = 0, max_health = 2\<rparr>]"
proof -
  let ?ops = "[OpMove 0, OpShoot 0 0, OpProgress 0 1, OpHit 0 0, OpClear, OpHit 0 0, OpHit 0 0]"
  let ?G = "apply_ops ?ops (GameState_init [[2]])"
  let ?H = "apply_ops [OpHit 0 0] (GameState_init [[2]])"
  have g: "0 < length (enemies ?G)" by (simp add: reachable_example)
  have h: "0 < length (enemies ?H)" by (simp add: reachable_example_alive)
  from damage_monotone[OF refl g refl] damage_monotone[OF refl h refl]
  show ?thesis
    by (simp add: reachable_example reachable_example_alive is_alive_def)
qed

section \<open>The drawing order and the enemy colours\<close>

text \<open>
  C6. A frame is a fresh image filled with the background colour, on which are painted,
  in this order: the \<open>NUM_WEEKS * NUM_DAYS\<close> cells of the grid in the empty-cell colour,
  the enemies that are alive, the bullets, and last the ship. A ship still at its initial
  week \<open>-1\<close> is painted as well, with its left corner at \<open>x = 20\<close>, left of the grid
  that starts at \<open>x = 40\<close>.
\<close>

theorem drawing_order:
  "render_frame K (Renderer_init K) gs =
     Inr \<lparr>img_size = (int (NUM_WEEKS K) * 14 + 80, int (NUM_DAYS K) * 14 + 80),
          img_background = COLOR_BACKGROUND,
          img_ops = spec_cells K @ spec_enemies gs @ map (spec_bullet K) (bullets gs)
                    @ [spec_ship K (ship gs)]\<rparr>
   \<and> length (spec_cells K) = NUM_WEEKS K * NUM_DAYS K
   \<and> length (spec_enemies gs) = length (filter is_alive (enemies gs))
   \<and> spec_ship K Ship_init =
       Polygon [(26, ship_row K), (20, ship_row K + 12), (32, ship_row K + 12)] COLOR_SHIP"
proof -
  have cells: "length (spec_cells K) = NUM_WEEKS K * NUM_DAYS K"
    by (simp add: spec_cells_def length_concat comp_def sum_list_triv)
  have en: "length (spec_enemies gs) = length (filter is_alive (enemies gs))"
    by (simp add: spec_enemies_def is_alive_def[abs_def])
  have sh: "spec_ship K Ship_init =
       Polygon [(26, ship_row K), (20, ship_row K + 12), (32, ship_row K + 12)] COLOR_SHIP"
    by (simp add: spec_ship_def Ship_init_def)
  from render_frame_spec[of K gs] cells en sh show ?thesis
    by (simp add: spec_render_frame_def)
qed

text \<open>
  C7. An alive enemy is painted in the colour that the lookup \<open>COLOR_ENEMY\<close> holds for
  its current health, whatever its \<open>max_health\<close>; when the health is above 4, the
  highest key, it is painted in the level-1 colour, and nothing is raised.
\<close>

theorem enemy_color_by_health:
  assumes "is_alive e"
  shows "Enemy_draw e (create_context (Renderer_init K)) img =
      Inr (paint (Rectangle (cell_box (enemy_week e) (enemy_day e))
                    (dict_get COLOR_ENEMY (health e) (0, 109, 50))) img)
    \<and> (if health e > 4 then dict_get COLOR_ENEMY (health e) (0, 109, 50) = (0, 109, 50)
        else COLOR_ENEMY (health e) = Some (dict_get COLOR_ENEMY (health e) (0, 109, 50)))
    \<and> COLOR_ENEMY 1 = Some (0, 109, 50)
    \<and> Enemy_draw (e\<lparr>max_health := m\<rparr>) (create_context (Renderer_init K)) img
        = Enemy_draw e (create_context (Renderer_init K)) img"
proof -
  from assms have pos: "0 < health e" by (simp add: is_alive_def)
  have a: "Enemy_draw e (create_context (Renderer_init K)) img =
      Inr (paint (Rectangle (cell_box (enemy_week e) (enemy_day e))
                    (dict_get COLOR_ENEMY (health e) (0, 109, 50))) img)"
    using Enemy_draw_context[OF assms] by (simp add: COLOR_ENEMY_get)
  have b: "dict_get COLOR_ENEMY (health e) (0, 109, 50) = (0, 109, 50)" if "health e > 4"
    using that by (simp add: dict_get_def COLOR_ENEMY_def)
  have c: "COLOR_ENEMY (health e) = Some (dict_get COLOR_ENEMY (health e) (0, 109, 50))"
    if "\<not> health e > 4"
  proof -
    from that pos have "health e = 1 \<or> health e = 2 \<or> health e = 3 \<or> health e = 4" by arith
    then show ?thesis by (auto simp add: dict_get_def COLOR_ENEMY_def)
  qed
  have d: "COLOR_ENEMY 1 = Some (0, 109, 50)" by (simp add: COLOR_ENEMY_def)
  have e: "Enemy_draw (e\<lparr>max_health := m\<rparr>) (create_context (Renderer_init K)) img
        = Enemy_draw e (create_context (Renderer_init K)) img"
    by (simp add: Enemy_draw_def is_alive_def Let_def split: prod.split sum.split)
  from a b c d e show ?thesis by simp
qed

text \<open>An enemy of health 7 at week 3, day 2 is painted in the level-1 colour.\<close>

theorem enemy_color_by_health_witness:
  "is_alive \<lparr>enemy_week = 3, enemy_day = 2, health = 7, max_health = 9\<rparr>
   \<and> Enemy_draw \<lparr>enemy_week = 3, enemy_day = 2, health = 7, max_health = 9\<rparr>
        (create_context (Renderer_init \<lparr>NUM_WEEKS = 52, NUM_DAYS = 7\<rparr>))
        (Image_new (808, 178) COLOR_BACKGROUND)
      = Inr \<lparr>img_size = (808, 178), img_background = COLOR_BACKGROUND,
             img_ops = [Rectangle (82, 68, 94, 80) (0, 109, 50)]\<rparr>"
proof -
  have h: "is_alive \<lparr>enemy_week = 3, enemy_day = 2, health = 7, max_health = 9\<rparr>"
    by (simp add: is_alive_def)
  from h enemy_color_by_health[OF h, of "\<lparr>NUM_WEEKS = 52, NUM_DAYS = 7\<rparr>"
      "Image_new (808, 178) COLOR_BACKGROUND" 9]
  show ?thesis
    by (simp add: paint_def Image_new_def cell_box_def)
qed

section \<open>The shot episode\<close>

lemma bullets_GameState_init: "bullets (GameState_init data) = []"
  by (simp add: GameState_init_def initialize_enemies_def)

text \<open>
  C8. Let the sequencer, started on a fresh game state, have processed the actions
  \<open>pre\<close>, and let the next action shoot. Then no bullet is left from before; the shot
  creates the one bullet, with progress 0, and touches no enemy; five frames are appended,
  each showing the ship moved, the enemies as they were before the shot and the bullet at
  progress 1/5, 2/5, 3/5, 4/5 and 1; the state left for the next action is the moved
  state after the hit, and it holds no bullet.
\<close>

theorem shot_episode:
  assumes "shoot a"
  shows "\<exists>gs fs. fold_err (process_action K (Renderer_init K)) pre
             (GameState_init data, [spec_render_frame K (GameState_init data)]) = Inr (gs, fs)
     \<and> bullets gs = []
     \<and> (let m = gs\<lparr>ship := move_to (ship gs) (action_week a)\<rparr>
        in GameState_shoot m (action_week a) (action_day a)
             = (m\<lparr>bullets := [\<lparr>bullet_week = action_week a, target_day = action_day a,
                                progress = 0\<rparr>]\<rparr>, 0)
         \<and> process_action K (Renderer_init K) a (gs, fs)
             = Inr (hit_target m (action_week a) (action_day a),
                    fs @ map (\<lambda>p. spec_render_frame K
                           (m\<lparr>bullets := [\<lparr>bullet_week = action_week a, target_day = action_day a,
                                             progress = p\<rparr>]\<rparr>))
                         [1 / 5, 2 / 5, 3 / 5, 4 / 5, 1])
         \<and> bullets (hit_target m (action_week a) (action_day a)) = [])"
proof -
  obtain gs fs where
    run: "fold_err (process_action K (Renderer_init K)) pre
             (GameState_init data, [spec_render_frame K (GameState_init data)]) = Inr (gs, fs)"
    and bs: "bullets gs = []"
    using fold_err_process_action[of K pre "GameState_init data"
        "[spec_render_frame K (GameState_init data)]"]
    by (auto simp add: bullets_GameState_init)
  let ?m = "gs\<lparr>ship := move_to (ship gs) (action_week a)\<rparr>"
  have m: "bullets ?m = []" using bs by simp
  have sh: "GameState_shoot ?m (action_week a) (action_day a)
             = (?m\<lparr>bullets := [\<lparr>bullet_week = action_week a, target_day = action_day a,
                                progress = 0\<rparr>]\<rparr>, 0)"
    using bs by (simp add: GameState_shoot_def)
  have hb: "bullets (hit_target ?m (action_week a) (action_day a)) = []"
    using m by (simp only: bullets_hit_target)
  then have clr: "(hit_target ?m (action_week a) (action_day a))\<lparr>bullets := []\<rparr>
      = hit_target ?m (action_week a) (action_day a)"
    by simp
  have pa: "process_action K (Renderer_init K) a (gs, fs)
             = Inr (hit_target ?m (action_week a) (action_day a),
                    fs @ map (\<lambda>p. spec_render_frame K
                           (?m\<lparr>bullets := [\<lparr>bullet_week = action_week a, target_day = action_day a,
                                             progress = p\<rparr>]\<rparr>))
                         [1 / 5, 2 / 5, 3 / 5, 4 / 5, 1])"
    using process_action_shoot[OF assms, of K gs fs, unfolded flight_steps_upt] bs
    by (simp add: Let_def clr bullet_flight_steps_def)
  from run bs sh pa hb show ?thesis by (simp add: Let_def)
qed

lemma GameState_init_single:
  "GameState_init [[3]] =
     \<lparr>contribution_data = [[3]], ship = \<lparr>ship_week = - 1\<rparr>,
      enemies = [\<lparr>enemy_week = 0, enemy_day = 0, health = 3, max_health = 3\<rparr>],
      bullets = []\<rparr>"
  by (simp add: GameState_init_def initialize_enemies_def init_week_def init_day_def
      Enemy_init_def Ship_init_def)

text \<open>
  The one-cell grid of level 3: the shot appends five frames to the initial one and
  leaves the enemy with health 2 and no bullet.
\<close>

theorem shot_episode_witness:
  "shoot \<lparr>action_week = 0, action_day = 0, shoot = True\<rparr>
   \<and> (\<exists>fs. process_action \<lparr>NUM_WEEKS = 1, NUM_DAYS = 1\<rparr> (Renderer_init \<lparr>NUM_WEEKS = 1, NUM_DAYS = 1\<rparr>)
          \<lparr>action_week = 0, action_day = 0, shoot = True\<rparr>
          (GameState_init [[3]], [spec_render_frame \<lparr>NUM_WEEKS = 1, NUM_DAYS = 1\<rparr> (GameState_init [[3]])])
        = Inr (\<lparr>contribution_data = [[3]], ship = \<lparr>ship_week = 0\<rparr>,
                enemies = [\<lparr>enemy_week = 0, enemy_day = 0, health = 2, max_health = 3\<rparr>],
                bullets = []\<rparr>, fs)
        \<and> length fs = 6)"
proof -
  have h: "shoot \<lparr>action_week = 0, action_day = 0, shoot = True\<rparr>" by simp
  have hit: "hit_target
      \<lparr>contribution_data = [[3]], ship = \<lparr>ship_week = 0\<rparr>,
       enemies = [\<lparr>enemy_week = 0, enemy_day = 0, health = 3, max_health = 3\<rparr>],
       bullets = []\<rparr> 0 0
     = \<lparr>contribution_data = [[3]], ship = \<lparr>ship_week = 0\<rparr>,
        enemies = [\<lparr>enemy_week = 0, enemy_day = 0, health = 2, max_health = 3\<rparr>],
        bullets = []\<rparr>"
    by (simp add: hit_target_def get_enemy_at_def is_alive_def take_damage_def Let_def)
  from shot_episode[OF h, of "\<lparr>NUM_WEEKS = 1, NUM_DAYS = 1\<rparr>" "[]" "[[3]]"]
  show ?thesis
    by (simp add: GameState_init_single move_to_def Let_def hit)
qed

section \<open>Unknown strategy selectors\<close>

lemma STRATEGY_MAP_keys: "map fst STRATEGY_MAP = [''column'', ''row'', ''random'']"
  by (simp add: STRATEGY_MAP_def)

lemma select_strategy_unknown:
  assumes "strategy \<notin> {''column'', ''row'', ''random''}"
  shows "select_strategy strategy = RandomStrategy"
proof -
  from assms have "map_of STRATEGY_MAP strategy = None"
    by (simp add: STRATEGY_MAP_def)
  then show ?thesis by (simp add: select_strategy_def dict_get_def)
qed

text \<open>
  C3, as stated, fails: the handler \<open>generate\<close> answers an unknown selector with
  status 400 before \<open>generate_gif\<close> is called, although the client and the animator
  would both succeed, so no animation is generated.
\<close>

theorem unknown_selector_counterexample:
  "generate (\<lambda>token username. Inr [[1]]) (\<lambda>data strategy. Inr [71, 73, 70])
     (Some ''token'') ''octocat'' ''spiral''
   = Inl (HTTPException 400 ''Invalid strategy. Choose from: column, row, random'')"
  by (simp add: generate_def STRATEGY_MAP_def)

text \<open>
  C3, amended. For a selector that is none of \<open>column\<close>, \<open>row\<close>, \<open>random\<close>,
  the selection inside \<open>generate_gif\<close> does not fail and gives the random strategy, so
  \<open>generate_gif\<close> does what it does for \<open>random\<close>. The handler \<open>generate\<close>
  generates no animation for such a selector: it answers with status 500 when the token
  is unset or empty, and with status 400 otherwise, in both cases before \<open>generate_gif\<close>
  is called.
\<close>

theorem unknown_selector:
  assumes "strategy \<notin> {''column'', ''row'', ''random''}"
  shows "select_strategy strategy = RandomStrategy
    \<and> generate_gif fetch animate username strategy token
        = generate_gif fetch animate username ''random'' token
    \<and> generate fetch animate getenv_token username strategy
        = (if getenv_token = None \<or> getenv_token = Some []
           then Inl (HTTPException 500 ''GitHub token not configured'')
           else Inl (HTTPException 400 ''Invalid strategy. Choose from: column, row, random''))"
proof -
  have r: "select_strategy ''random'' = RandomStrategy"
    by (simp add: select_strategy_def dict_get_def STRATEGY_MAP_def)
  from assms have nk: "strategy \<notin> set (map fst STRATEGY_MAP)"
    by (simp add: STRATEGY_MAP_keys)
  have g: "generate fetch animate getenv_token username strategy
        = (if getenv_token = None \<or> getenv_token = Some []
           then Inl (HTTPException 500 ''GitHub token not configured'')
           else Inl (HTTPException 400 ''Invalid strategy. Choose from: column, row, random''))"
    using nk by (simp add: generate_def STRATEGY_MAP_keys split: option.split)
  from select_strategy_unknown[OF assms] r g show ?thesis
    by (simp add: generate_gif_def split: sum.split)
qed

text \<open>
  The selector \<open>spiral\<close> reaches the animator as the random strategy; the handler
  answers it with status 400 when a token is configured and with status 500 when none is.
\<close>

theorem unknown_selector_witness:
  "''spiral'' \<notin> {''column'', ''row'', ''random''}
   \<and> select_strategy ''spiral'' = RandomStrategy
   \<and> generate_gif (\<lambda>token username. Inr [[1]])
        (\<lambda>data strategy. if strategy = RandomStrategy then Inr [71, 73, 70] else Inr [])
        ''octocat'' ''spiral'' ''token'' = Inr [71, 73, 70]
   \<and> generate (\<lambda>token username. Inr [[1]]) (\<lambda>data strategy. Inr [71, 73, 70])
        (Some ''token'') ''octocat'' ''spiral''
      = Inl (HTTPException 400 ''Invalid strategy. Choose from: column, row, random'')
   \<and> generate (\<lambda>token username. Inr [[1]]) (\<lambda>data strategy. Inr [71, 73, 70])
        None ''octocat'' ''spiral''
      = Inl (HTTPException 500 ''GitHub token not configured'')"
proof -
  have h: "''spiral'' \<notin> {''column'', ''row'', ''random''}" by simp
  from h
    unknown_selector[OF h, of "\<lambda>token username. Inr [[1]]"
      "\<lambda>data strategy. if strategy = RandomStrategy then Inr [71, 73, 70] else Inr []"
      "''octocat''" "''token''" "Some ''token''"]
    unknown_selector[OF h, of "\<lambda>token username. Inr [[1]]" "\<lambda>data strategy. Inr [71, 73, 70]"
      "''octocat''" "''token''" "Some ''token''"]
    unknown_selector[OF h, of "\<lambda>token username. Inr [[1]]" "\<lambda>data strategy. Inr [71, 73, 70]"
      "''octocat''" "''token''" None]
  show ?thesis by (simp add: generate_gif_def)
qed

section \<open>Rendering reads the state only\<close>

lemma fold_alive_at:
  "fold alive_at is (gs, acc) = (gs, acc @ filter (\<lambda>i. is_alive (enemies gs ! i)) is)"
  by (induction "is" arbitrary: acc) (simp_all add: alive_at_def is_alive_st_def is_alive_def)

lemma get_alive_enemies_st_refs:
  "get_alive_enemies_st gs =
     (gs, filter (\<lambda>i. is_alive (enemies gs ! i)) [0..<length (enemies gs)])"
  by (simp add: get_alive_enemies_st_def fold_alive_at)

lemma nth_alive_refs:
  "map (nth es) (filter (\<lambda>i. P (es ! i)) [0..<length es]) = filter P es"
proof -
  have "map (nth es) (filter (\<lambda>i. P (es ! i)) [0..<length es])
      = filter P (map (nth es) [0..<length es])"
    by (simp add: filter_map comp_def)
  then show ?thesis by (simp add: map_nth)
qed

lemma Enemy_draw_st_receiver:
  "Enemy_draw_st e ctx img =
     (case Enemy_draw e ctx img of Inl err \<Rightarrow> Inl err | Inr img' \<Rightarrow> Inr (e, img'))"
  by (simp add: Enemy_draw_st_def Enemy_draw_def is_alive_st_def is_alive_def Let_def
      split: prod.split sum.split)

lemma draw_enemy_at_receiver:
  "draw_enemy_at ctx i (gs, img) =
     (case Enemy_draw (enemies gs ! i) ctx img of
        Inl err \<Rightarrow> Inl err | Inr img' \<Rightarrow> Inr (gs, img'))"
  by (simp add: draw_enemy_at_def Enemy_draw_st_receiver split: sum.split)

lemma fold_err_draw_enemy_at:
  "fold_err (draw_enemy_at ctx) is (gs, img) =
     (case fold_err (\<lambda>enemy. Enemy_draw enemy ctx) (map (nth (enemies gs)) is) img of
        Inl err \<Rightarrow> Inl err | Inr img' \<Rightarrow> Inr (gs, img'))"
  by (induction "is" arbitrary: img) (simp_all add: draw_enemy_at_receiver split: sum.split)

lemma fold_draw_bullet_at:
  "fold (draw_bullet_at K ctx) is (gs, img) =
     (gs, fold (\<lambda>bullet. Bullet_draw K bullet ctx) (map (nth (bullets gs)) is) img)"
  by (induction "is" arbitrary: img) (simp_all add: draw_bullet_at_def Bullet_draw_st_def)

lemma GameState_draw_st_receiver:
  "GameState_draw_st K gs ctx img =
     (case GameState_draw K gs ctx img of Inl err \<Rightarrow> Inl err | Inr img' \<Rightarrow> Inr (gs, img'))"
  by (simp add: GameState_draw_st_def GameState_draw_def draw_grid_st_def
      get_alive_enemies_st_refs fold_err_draw_enemy_at nth_alive_refs get_alive_enemies_def
      fold_draw_bullet_at map_nth Ship_draw_st_def split: sum.split)

lemma render_frame_st_receiver:
  "render_frame_st K r gs =
     (case render_frame K r gs of Inl err \<Rightarrow> Inl err | Inr img \<Rightarrow> Inr (r, gs, img))"
  by (simp add: render_frame_st_def render_frame_def create_context_st_def
      GameState_draw_st_receiver split: sum.split)

lemma fold_err_Enemy_draw_total:
  assumes "dict_item (ctx_enemy_colors ctx) 1 = Inr c"
  shows "\<exists>img'. fold_err (\<lambda>enemy. Enemy_draw enemy ctx) es img = Inr img'"
proof (induction es arbitrary: img)
  case Nil
  show ?case by simp
next
  case (Cons e es)
  have "\<exists>img1. Enemy_draw e ctx img = Inr img1"
    using assms by (simp add: Enemy_draw_def Let_def split: prod.split)
  then obtain img1 where "Enemy_draw e ctx img = Inr img1" ..
  with Cons.IH[of img1] show ?case by simp
qed

lemma render_frame_total: "\<exists>img. render_frame K r gs = Inr img"
proof -
  have "dict_item (ctx_enemy_colors (create_context r)) 1 = Inr (0, 109, 50)"
    by (simp add: create_context_def COLOR_ENEMY_1)
  from fold_err_Enemy_draw_total[OF this]
  obtain img1 where "fold_err (\<lambda>enemy. Enemy_draw enemy (create_context r)) (get_alive_enemies gs)
      (draw_grid K (create_context r) (Image_new (width r, height r) COLOR_BACKGROUND)) = Inr img1"
    by blast
  then show ?thesis by (simp add: render_frame_def GameState_draw_def)
qed

text \<open>
  C9. A call of \<open>render_frame\<close> raises nothing and leaves the renderer and the game
  state, with every enemy, bullet and the ship, as it found them; two calls in a row
  return the same image. The image is the one \<open>render_frame\<close> computes from the state
  alone, which is how the sequencer above reads it.
\<close>

theorem render_idempotent:
  "\<exists>img. render_frame_st K r gs = Inr (r, gs, img)
      \<and> render_twice K r gs = Inr (r, gs, img, img)
      \<and> render_frame K r gs = Inr img"
proof -
  obtain img where img: "render_frame K r gs = Inr img"
    using render_frame_total[of K r gs] by blast
  then have one: "render_frame_st K r gs = Inr (r, gs, img)"
    by (simp add: render_frame_st_receiver)
  then have "render_twice K r gs = Inr (r, gs, img, img)"
    by (simp add: render_twice_def)
  with one img show ?thesis by blast
qed

end
